theory Spec2Isabelle
  imports Complex_Main
begin

section \<open>Poses in SE(2): \<^verbatim>\<open>graphslam/pose/se2.py\<close>\<close>

text \<open>
  The class \<^verbatim>\<open>PoseSE2\<close> is a numpy array of three \<^verbatim>\<open>float64\<close> slots
  \<^verbatim>\<open>[x, y, theta]\<close> with the group operations of planar rigid motions on top.
  The embedding reads \<^verbatim>\<open>float64\<close> as the real numbers: every component is a finite
  real, and rounding, signed zeros, NaN and infinities are outside the model. Each raise
  of the source (and of the numpy calls it makes) is a value of type \<open>error\<close>.
\<close>

subsection \<open>Errors and numpy values\<close>

datatype error = IndexError | ValueError | LinAlgError

text \<open>
  An operand of the arithmetic in the source is either a scalar (\<^verbatim>\<open>self[i]\<close>, a Python
  float) or a one-dimensional array: \<^verbatim>\<open>np.cos([self[2]])\<close> in \<^verbatim>\<open>inverse\<close> is
  called on a Python list and returns an array of shape \<^verbatim>\<open>(1,)\<close>.
\<close>

datatype npvalue = Scalar real | Array1 "real list"

text \<open>\<^verbatim>\<open>np.cos\<close> works elementwise.\<close>

fun np_cos :: "npvalue \<Rightarrow> npvalue" where
  "np_cos (Scalar v) = Scalar (cos v)"
| "np_cos (Array1 vs) = Array1 (map cos vs)"

text \<open>
  \<^verbatim>\<open>a * v\<close> and \<^verbatim>\<open>a - v\<close> with a scalar left operand \<open>a\<close>: numpy broadcasts the
  scalar over an array operand.
\<close>

fun scalar_mul :: "real \<Rightarrow> npvalue \<Rightarrow> npvalue" where
  "scalar_mul a (Scalar v) = Scalar (a * v)"
| "scalar_mul a (Array1 vs) = Array1 (map (\<lambda>v. a * v) vs)"

fun scalar_sub :: "real \<Rightarrow> npvalue \<Rightarrow> npvalue" where
  "scalar_sub a (Scalar v) = Scalar (a - v)"
| "scalar_sub a (Array1 vs) = Array1 (map (\<lambda>v. a - v) vs)"

text \<open>
  Storing a value into one \<^verbatim>\<open>float64\<close> slot of \<^verbatim>\<open>np.array([...], dtype=np.float64)\<close>,
  whose other elements are scalars: a scalar is stored as it is; an array, also one of a
  single element, is a sequence where a scalar is expected, and numpy (1.24 and later)
  raises \<^verbatim>\<open>ValueError\<close> (setting an array element with a sequence: the requested
  array has an inhomogeneous shape).
\<close>

fun as_float64 :: "npvalue \<Rightarrow> error + real" where
  "as_float64 (Scalar v) = Inr v"
| "as_float64 (Array1 vs) = Inl ValueError"

subsection \<open>The pose and its constructor\<close>

text \<open>
  The three slots of the array: \<^verbatim>\<open>self[0]\<close>, \<^verbatim>\<open>self[1]\<close> and \<^verbatim>\<open>self[2]\<close>.
\<close>

record PoseSE2 =
  pose_x :: real
  pose_y :: real
  pose_theta :: real

text \<open>
  \<^verbatim>\<open>__new__(cls, position, orientation)\<close> builds
  \<^verbatim>\<open>np.array([position[0], position[1], orientation], dtype=np.float64)\<close>.
  A position shorter than two raises \<^verbatim>\<open>IndexError\<close>; further elements are ignored.
\<close>

definition PoseSE2_new :: "npvalue list \<Rightarrow> real \<Rightarrow> error + PoseSE2" where
  "PoseSE2_new position orientation =
     (if length position < 2 then Inl IndexError
      else case as_float64 (position ! 0) of
             Inl e \<Rightarrow> Inl e
           | Inr a \<Rightarrow>
               (case as_float64 (position ! 1) of
                  Inl e \<Rightarrow> Inl e
                | Inr b \<Rightarrow> Inr \<lparr>pose_x = a, pose_y = b, pose_theta = orientation\<rparr>))"

subsection \<open>Conversions\<close>

text \<open>\<^verbatim>\<open>to_array\<close> and \<^verbatim>\<open>to_compact\<close> both return \<^verbatim>\<open>np.array(self)\<close>.\<close>

definition to_array :: "PoseSE2 \<Rightarrow> real list" where
  "to_array self = [pose_x self, pose_y self, pose_theta self]"

definition to_compact :: "PoseSE2 \<Rightarrow> real list" where
  "to_compact self = [pose_x self, pose_y self, pose_theta self]"

text \<open>A matrix is the list of its rows, as in the literal of \<^verbatim>\<open>to_matrix\<close>.\<close>

type_synonym matrix = "real list list"

definition to_matrix :: "PoseSE2 \<Rightarrow> matrix" where
  "to_matrix self =
     [[cos (pose_theta self), - sin (pose_theta self), pose_x self],
      [sin (pose_theta self), cos (pose_theta self), pose_y self],
      [0, 0, 1]]"

text \<open>
  \<^verbatim>\<open>math.atan2(y, x)\<close> of the Python standard library over the reals: the angle of the
  point \<open>(x, y)\<close> in \<open>(-\<pi>, \<pi>]\<close>, and \<open>0\<close> at the origin.
\<close>

definition atan2 :: "real \<Rightarrow> real \<Rightarrow> real" where
  "atan2 y x =
     (if 0 < x then arctan (y / x)
      else if x < 0 then (if 0 \<le> y then arctan (y / x) + pi else arctan (y / x) - pi)
      else if 0 < y then pi / 2
      else if y < 0 then - (pi / 2)
      else 0)"

text \<open>
  \<^verbatim>\<open>from_matrix(cls, matrix)\<close> reads \<^verbatim>\<open>matrix[0, 2]\<close>, \<^verbatim>\<open>matrix[1, 2]\<close>,
  \<^verbatim>\<open>matrix[1, 0]\<close> and \<^verbatim>\<open>matrix[0, 0]\<close>; an index outside the array raises
  \<^verbatim>\<open>IndexError\<close>.
\<close>

definition from_matrix :: "matrix \<Rightarrow> error + PoseSE2" where
  "from_matrix matrix =
     (if length matrix < 2 \<or> length (matrix ! 0) < 3 \<or> length (matrix ! 1) < 3
      then Inl IndexError
      else PoseSE2_new [Scalar (matrix ! 0 ! 2), Scalar (matrix ! 1 ! 2)]
             (atan2 (matrix ! 1 ! 0) (matrix ! 0 ! 0)))"

subsection \<open>Properties\<close>

text \<open>\<^verbatim>\<open>position\<close> is \<^verbatim>\<open>np.array(self[:2])\<close>, \<^verbatim>\<open>orientation\<close> is \<^verbatim>\<open>self[2]\<close>.\<close>

definition position :: "PoseSE2 \<Rightarrow> real list" where
  "position self = take 2 (to_array self)"

definition orientation :: "PoseSE2 \<Rightarrow> real" where
  "orientation self = pose_theta self"

text \<open>
  \<^verbatim>\<open>inverse\<close>. The first position component is computed with \<^verbatim>\<open>np.cos(self[2])\<close>
  and \<^verbatim>\<open>np.sin(self[2])\<close> on scalars; the second one with \<^verbatim>\<open>np.sin(self[2])\<close>
  and \<^verbatim>\<open>np.cos([self[2]])\<close>, the cosine of a list, so it reaches the constructor as
  an array of shape \<^verbatim>\<open>(1,)\<close>.
\<close>

definition PoseSE2_inverse :: "PoseSE2 \<Rightarrow> error + PoseSE2" where
  "PoseSE2_inverse self =
     PoseSE2_new
       [Scalar (- pose_x self * cos (pose_theta self) - pose_y self * sin (pose_theta self)),
        scalar_sub (pose_x self * sin (pose_theta self))
          (scalar_mul (pose_y self) (np_cos (Array1 [pose_theta self])))]
       (- pose_theta self)"

subsection \<open>Magic methods\<close>

text \<open>\<^verbatim>\<open>__add__\<close>: pose composition.\<close>

definition PoseSE2_add :: "PoseSE2 \<Rightarrow> PoseSE2 \<Rightarrow> error + PoseSE2" where
  "PoseSE2_add self other =
     PoseSE2_new
       [Scalar (pose_x self + pose_x other * cos (pose_theta self)
                  - pose_y other * sin (pose_theta self)),
        Scalar (pose_y self + pose_x other * sin (pose_theta self)
                  + pose_y other * cos (pose_theta self))]
       (pose_theta self + pose_theta other)"

text \<open>\<^verbatim>\<open>__sub__\<close>: \<^verbatim>\<open>return other.inverse + self\<close>.\<close>

definition PoseSE2_sub :: "PoseSE2 \<Rightarrow> PoseSE2 \<Rightarrow> error + PoseSE2" where
  "PoseSE2_sub self other =
     (case PoseSE2_inverse other of
        Inl e \<Rightarrow> Inl e
      | Inr other_inverse \<Rightarrow> PoseSE2_add other_inverse self)"

subsection \<open>Matrix product and matrix inverse\<close>

text \<open>
  The matrix operations the tests compare against (\<^verbatim>\<open>np.dot\<close> and
  \<^verbatim>\<open>np.linalg.inv\<close>), on the three-by-three matrices that \<^verbatim>\<open>to_matrix\<close> returns.
  \<open>matmul\<close> is the row-by-column product. \<open>matrix_inverse\<close> divides the adjugate by the
  determinant; a singular matrix raises \<^verbatim>\<open>LinAlgError\<close>. Only the three-by-three
  case is modelled: any other shape is answered with \<^verbatim>\<open>LinAlgError\<close> too, as numpy
  does for a matrix that is not square, and no theorem below applies it to one.
\<close>

definition matmul :: "matrix \<Rightarrow> matrix \<Rightarrow> matrix" where
  "matmul A B =
     map (\<lambda>row. map (\<lambda>col. sum_list (map2 (*) row col)) (transpose B)) A"

definition eye3 :: matrix where
  "eye3 = [[1, 0, 0], [0, 1, 0], [0, 0, 1]]"

definition det3 :: "matrix \<Rightarrow> real" where
  "det3 M =
     M ! 0 ! 0 * (M ! 1 ! 1 * M ! 2 ! 2 - M ! 1 ! 2 * M ! 2 ! 1)
     - M ! 0 ! 1 * (M ! 1 ! 0 * M ! 2 ! 2 - M ! 1 ! 2 * M ! 2 ! 0)
     + M ! 0 ! 2 * (M ! 1 ! 0 * M ! 2 ! 1 - M ! 1 ! 1 * M ! 2 ! 0)"

definition adjugate3 :: "matrix \<Rightarrow> matrix" where
  "adjugate3 M =
     [[M ! 1 ! 1 * M ! 2 ! 2 - M ! 1 ! 2 * M ! 2 ! 1,
       M ! 0 ! 2 * M ! 2 ! 1 - M ! 0 ! 1 * M ! 2 ! 2,
       M ! 0 ! 1 * M ! 1 ! 2 - M ! 0 ! 2 * M ! 1 ! 1],
      [M ! 1 ! 2 * M ! 2 ! 0 - M ! 1 ! 0 * M ! 2 ! 2,
       M ! 0 ! 0 * M ! 2 ! 2 - M ! 0 ! 2 * M ! 2 ! 0,
       M ! 0 ! 2 * M ! 1 ! 0 - M ! 0 ! 0 * M ! 1 ! 2],
      [M ! 1 ! 0 * M ! 2 ! 1 - M ! 1 ! 1 * M ! 2 ! 0,
       M ! 0 ! 1 * M ! 2 ! 0 - M ! 0 ! 0 * M ! 2 ! 1,
       M ! 0 ! 0 * M ! 1 ! 1 - M ! 0 ! 1 * M ! 1 ! 0]]"

definition matrix_inverse :: "matrix \<Rightarrow> error + matrix" where
  "matrix_inverse M =
     (if map length M = [3, 3, 3]
      then (if det3 M = 0 then Inl LinAlgError
            else Inr (map (map (\<lambda>c. c / det3 M)) (adjugate3 M)))
      else Inl LinAlgError)"

section \<open>Verification\<close>

subsection \<open>Construction never fails on scalars\<close>

lemma PoseSE2_new_scalars:
  "PoseSE2_new [Scalar a, Scalar b] t = Inr \<lparr>pose_x = a, pose_y = b, pose_theta = t\<rparr>"
  by (simp add: PoseSE2_new_def)

lemma PoseSE2_add_value:
  "PoseSE2_add p q =
     Inr \<lparr>pose_x = pose_x p + pose_x q * cos (pose_theta p) - pose_y q * sin (pose_theta p),
          pose_y = pose_y p + pose_x q * sin (pose_theta p) + pose_y q * cos (pose_theta p),
          pose_theta = pose_theta p + pose_theta q\<rparr>"
  by (simp add: PoseSE2_add_def PoseSE2_new_scalars)

text \<open>
  The constructor call of \<^verbatim>\<open>inverse\<close> raises for every pose: its second position
  component is an array. So does \<^verbatim>\<open>__sub__\<close>, which starts with \<^verbatim>\<open>other.inverse\<close>.
\<close>

lemma PoseSE2_inverse_raises: "PoseSE2_inverse p = Inl ValueError"
  by (simp add: PoseSE2_inverse_def PoseSE2_new_def)

lemma PoseSE2_sub_raises: "PoseSE2_sub p1 p2 = Inl ValueError"
  by (simp add: PoseSE2_sub_def PoseSE2_inverse_raises)

subsection \<open>The matrix operations are the mathematical ones\<close>

lemma matrix_3x3_cases:
  assumes "map length (M :: matrix) = [3, 3, 3]"
  obtains a b c d e f g h i where "M = [[a, b, c], [d, e, f], [g, h, i]]"
proof -
  from assms obtain r0 r1 r2 where M: "M = [r0, r1, r2]"
    by (auto simp: map_eq_Cons_conv)
  with assms have l: "length r0 = 3" "length r1 = 3" "length r2 = 3" by simp_all
  have row: "\<exists>a b c. r = [a, b, c]" if "length r = 3" for r :: "real list"
    using that by (auto simp: length_Suc_conv numeral_3_eq_3)
  from row [OF l(1)] row [OF l(2)] row [OF l(3)] M that show ?thesis by blast
qed

text \<open>Whatever \<open>matrix_inverse\<close> returns is a two-sided inverse for \<open>matmul\<close>.\<close>

lemma matrix_inverse_sound:
  assumes "matrix_inverse M = Inr N"
  shows "matmul M N = eye3 \<and> matmul N M = eye3"
proof -
  from assms have sh: "map length M = [3, 3, 3]" and dz: "det3 M \<noteq> 0"
    and N: "N = map (map (\<lambda>c. c / det3 M)) (adjugate3 M)"
    by (auto simp: matrix_inverse_def split: if_splits)
  from sh obtain a b c d e f g h i where M: "M = [[a, b, c], [d, e, f], [g, h, i]]"
    by (rule matrix_3x3_cases)
  define D where "D = det3 M"
  have D: "D = a * (e * i - f * h) - b * (d * i - f * g) + c * (d * h - e * g)"
    by (simp add: D_def det3_def M)
  have D0: "D \<noteq> 0" using dz by (simp add: D_def)
  have Nv: "N = [[(e * i - f * h) / D, (c * h - b * i) / D, (b * f - c * e) / D],
                 [(f * g - d * i) / D, (a * i - c * g) / D, (c * d - a * f) / D],
                 [(d * h - e * g) / D, (b * g - a * h) / D, (a * e - b * d) / D]]"
    unfolding N D_def [symmetric] by (simp add: adjugate3_def M)
  have left: "matmul M N = eye3"
    unfolding M Nv matmul_def eye3_def using D0
    apply (simp add: field_simps)
    apply (simp add: D algebra_simps)
    done
  have right: "matmul N M = eye3"
    unfolding M Nv matmul_def eye3_def using D0
    apply (simp add: field_simps)
    apply (simp add: D algebra_simps)
    done
  from left right show ?thesis by simp
qed

lemma det3_to_matrix: "det3 (to_matrix p) = 1"
  by (simp add: det3_def to_matrix_def power2_eq_square [symmetric])

lemma to_matrix_shape: "map length (to_matrix p) = [3, 3, 3]"
  by (simp add: to_matrix_def)

lemma to_matrix_add:
  assumes "PoseSE2_add p q = Inr r"
  shows "to_matrix r = matmul (to_matrix p) (to_matrix q)"
  using assms
  by (auto simp: PoseSE2_add_value to_matrix_def matmul_def cos_add sin_add algebra_simps)

text \<open>
  The matrix of a pose is invertible, and its inverse is the matrix of the pose
  \<open>(- x cos \<theta> - y sin \<theta>, x sin \<theta> - y cos \<theta>, - \<theta>)\<close>.
\<close>

lemma matrix_inverse_to_matrix:
  "matrix_inverse (to_matrix p) =
     Inr (to_matrix \<lparr>pose_x = - pose_x p * cos (pose_theta p) - pose_y p * sin (pose_theta p),
                      pose_y = pose_x p * sin (pose_theta p) - pose_y p * cos (pose_theta p),
                      pose_theta = - pose_theta p\<rparr>)"
proof -
  have "map (map (\<lambda>c. c / det3 (to_matrix p))) (adjugate3 (to_matrix p)) =
      to_matrix \<lparr>pose_x = - pose_x p * cos (pose_theta p) - pose_y p * sin (pose_theta p),
                 pose_y = pose_x p * sin (pose_theta p) - pose_y p * cos (pose_theta p),
                 pose_theta = - pose_theta p\<rparr>"
    unfolding det3_to_matrix
    by (simp add: to_matrix_def adjugate3_def algebra_simps power2_eq_square [symmetric])
  then show ?thesis
    by (simp add: matrix_inverse_def to_matrix_shape det3_to_matrix)
qed

subsection \<open>\<open>atan2\<close> returns the principal angle\<close>

lemma sqrt_ratio:
  fixes x y :: real
  assumes "x \<noteq> 0"
  shows "sqrt (1 + (y / x)\<^sup>2) = sqrt (x\<^sup>2 + y\<^sup>2) / \<bar>x\<bar>"
proof -
  have "1 + (y / x)\<^sup>2 = (x\<^sup>2 + y\<^sup>2) / x\<^sup>2"
    using assms by (simp add: field_simps power2_eq_square)
  then show ?thesis
    by (simp add: real_sqrt_divide)
qed

lemma cos_arctan_ratio:
  fixes x y :: real
  assumes "x \<noteq> 0"
  shows "cos (arctan (y / x)) = \<bar>x\<bar> / sqrt (x\<^sup>2 + y\<^sup>2)"
  using assms by (simp add: cos_arctan sqrt_ratio)

lemma sin_arctan_ratio:
  fixes x y :: real
  assumes "x \<noteq> 0"
  shows "sin (arctan (y / x)) = (y / x) * \<bar>x\<bar> / sqrt (x\<^sup>2 + y\<^sup>2)"
  using assms by (simp add: sin_arctan sqrt_ratio)

lemma cos_atan2:
  assumes "x \<noteq> 0 \<or> y \<noteq> 0"
  shows "cos (atan2 y x) = x / sqrt (x\<^sup>2 + y\<^sup>2)"
proof -
  consider "0 < x" | "x < 0" | "x = 0" "y \<noteq> 0" using assms by fastforce
  then show ?thesis
  proof cases
    case 1
    then show ?thesis by (simp add: atan2_def cos_arctan_ratio)
  next
    case 2
    then show ?thesis by (simp add: atan2_def cos_arctan_ratio)
  next
    case 3
    then show ?thesis by (simp add: atan2_def)
  qed
qed

lemma sin_atan2:
  assumes "x \<noteq> 0 \<or> y \<noteq> 0"
  shows "sin (atan2 y x) = y / sqrt (x\<^sup>2 + y\<^sup>2)"
proof -
  consider "0 < x" | "x < 0" | "x = 0" "0 < y" | "x = 0" "y < 0" using assms by fastforce
  then show ?thesis
  proof cases
    case 1
    then show ?thesis by (simp add: atan2_def sin_arctan_ratio)
  next
    case 2
    then show ?thesis by (simp add: atan2_def sin_arctan_ratio)
  next
    case 3
    then show ?thesis by (simp add: atan2_def)
  next
    case 4
    then show ?thesis by (simp add: atan2_def)
  qed
qed

lemma atan2_range: "- pi < atan2 y x \<and> atan2 y x \<le> pi"
proof -
  have lo: "- (pi / 2) < arctan (y / x)" by (rule arctan_lbound)
  have hi: "arctan (y / x) < pi / 2" by (rule arctan_ubound)
  consider "0 < x" | "x < 0" "0 \<le> y" | "x < 0" "y < 0"
    | "x = 0" "0 < y" | "x = 0" "y < 0" | "x = 0" "y = 0"
    by fastforce
  then show ?thesis
  proof cases
    case 1
    then have "atan2 y x = arctan (y / x)" by (simp add: atan2_def)
    with lo hi pi_gt_zero show ?thesis by linarith
  next
    case 2
    then have "y / x \<le> 0" by (simp add: divide_nonneg_neg)
    then have "arctan (y / x) \<le> 0" by (simp add: arctan_le_zero_iff)
    moreover from 2 have "atan2 y x = arctan (y / x) + pi" by (simp add: atan2_def)
    ultimately show ?thesis using lo pi_gt_zero by linarith
  next
    case 3
    then have "0 < y / x" by (simp add: divide_neg_neg)
    then have "0 < arctan (y / x)" by (simp add: zero_less_arctan_iff)
    moreover from 3 have "atan2 y x = arctan (y / x) - pi" by (simp add: atan2_def)
    ultimately show ?thesis using hi pi_gt_zero by linarith
  next
    case 4
    then have "atan2 y x = pi / 2" by (simp add: atan2_def)
    with pi_gt_zero show ?thesis by linarith
  next
    case 5
    then have "atan2 y x = - (pi / 2)" by (simp add: atan2_def)
    with pi_gt_zero show ?thesis by linarith
  next
    case 6
    then have "atan2 y x = 0" by (simp add: atan2_def)
    with pi_gt_zero show ?thesis by linarith
  qed
qed

lemma principal_angle_unique:
  fixes a b :: real
  assumes "sin a = sin b" "cos a = cos b" "- pi < a" "a \<le> pi" "- pi < b" "b \<le> pi"
  shows "a = b"
proof -
  from assms(1,2) obtain n :: int where n: "a = b + 2 * pi * n"
    using sin_cos_eq_iff [of a b] by blast
  have "\<bar>a - b\<bar> < 2 * pi" using assms(3-6) by linarith
  then have "\<bar>2 * pi * real_of_int n\<bar> < 2 * pi" using n by simp
  then have "\<bar>real_of_int n\<bar> < 1" using pi_gt_zero
    by (simp add: abs_mult)
  then have "n = 0" by linarith
  then show ?thesis using n by simp
qed

lemma atan2_sin_cos:
  "cos (atan2 (sin t) (cos t)) = cos t \<and> sin (atan2 (sin t) (cos t)) = sin t"
proof -
  have nz: "cos t \<noteq> 0 \<or> sin t \<noteq> 0"
    using sin_zero_abs_cos_one by fastforce
  have "(cos t)\<^sup>2 + (sin t)\<^sup>2 = 1" by (simp add: add.commute)
  then show ?thesis using cos_atan2 [OF nz] sin_atan2 [OF nz] by simp
qed

lemma from_matrix_to_matrix:
  "from_matrix (to_matrix p) =
     Inr \<lparr>pose_x = pose_x p, pose_y = pose_y p,
          pose_theta = atan2 (sin (pose_theta p)) (cos (pose_theta p))\<rparr>"
  by (simp add: from_matrix_def to_matrix_def PoseSE2_new_scalars)

lemma matrix_3x3_lengths:
  assumes "map length (A :: matrix) = [3, 3, 3]"
  shows "length A = 3 \<and> length (A ! 0) = 3 \<and> length (A ! 1) = 3"
proof -
  from assms obtain r0 r1 r2 where "A = [r0, r1, r2]"
    by (auto simp: map_eq_Cons_conv)
  with assms show ?thesis by simp
qed

subsection \<open>Accessors\<close>

text \<open>
  Claim C8. \<^verbatim>\<open>to_array\<close> and \<^verbatim>\<open>to_compact\<close> are the same operation: on every pose
  they return the same array of three elements, \<open>[x, y, \<theta>]\<close>.
\<close>

theorem to_array_eq_to_compact:
  "to_array p = to_compact p
   \<and> to_array p = [pose_x p, pose_y p, pose_theta p]
   \<and> length (to_array p) = 3 \<and> length (to_compact p) = 3"
  by (simp add: to_array_def to_compact_def)

text \<open>
  Claim C7. A pose constructed from the position \<open>(x, y)\<close> and the orientation \<open>\<theta>\<close> is
  built without error, its \<^verbatim>\<open>position\<close> is exactly \<open>[x, y]\<close> and its
  \<^verbatim>\<open>orientation\<close> is exactly \<open>\<theta>\<close> (never a constant 0 in place of a nonzero angle).
\<close>

theorem accessors_return_components:
  "\<exists>p. PoseSE2_new [Scalar x, Scalar y] t = Inr p
       \<and> position p = [x, y] \<and> orientation p = t"
  by (simp add: PoseSE2_new_scalars position_def orientation_def to_array_def)

subsection \<open>Composition\<close>

text \<open>
  Claim C1. Composition is a homomorphism into matrix multiplication: for all poses
  \<open>p1\<close> and \<open>p2\<close> the composition succeeds, its matrix is the matrix product
  of the matrices of \<open>p1\<close> and \<open>p2\<close>, and its angle is exactly the sum of the two
  angles, not wrapped into any range.
\<close>

theorem add_is_matrix_product:
  "\<exists>r. PoseSE2_add p1 p2 = Inr r
       \<and> to_matrix r = matmul (to_matrix p1) (to_matrix p2)
       \<and> pose_theta r = pose_theta p1 + pose_theta p2"
proof -
  obtain r where r: "PoseSE2_add p1 p2 = Inr r"
    by (simp add: PoseSE2_add_value)
  then have "pose_theta r = pose_theta p1 + pose_theta p2"
    by (auto simp: PoseSE2_add_value)
  with r to_matrix_add [OF r] show ?thesis by simp
qed

text \<open>
  Claim C9. Composition is associative: for all poses \<open>p1\<close>, \<open>p2\<close>, \<open>p3\<close>, composing
  \<open>p1 \<oplus> p2\<close> with \<open>p3\<close> gives the same pose as composing \<open>p1\<close> with \<open>p2 \<oplus> p3\<close>,
  and every composition involved succeeds.
\<close>

theorem add_associative:
  "\<exists>a b c. PoseSE2_add p1 p2 = Inr a \<and> PoseSE2_add p2 p3 = Inr b
       \<and> PoseSE2_add a p3 = Inr c \<and> PoseSE2_add p1 b = Inr c"
  by (simp add: PoseSE2_add_value cos_add sin_add algebra_simps)

text \<open>
  Claim C6. Composition is not commutative: there are two different poses whose
  compositions in the two orders both succeed and differ. The poses are the unit
  translation along x and the half turn.
\<close>

theorem add_not_commutative:
  "\<exists>p1 p2 r12 r21. p1 \<noteq> p2 \<and> PoseSE2_add p1 p2 = Inr r12
       \<and> PoseSE2_add p2 p1 = Inr r21 \<and> r12 \<noteq> r21"
proof -
  let ?p1 = "\<lparr>pose_x = 1, pose_y = 0, pose_theta = 0\<rparr>"
  let ?p2 = "\<lparr>pose_x = 0, pose_y = 0, pose_theta = pi\<rparr>"
  have "?p1 \<noteq> ?p2" by simp
  moreover have "PoseSE2_add ?p1 ?p2 = Inr \<lparr>pose_x = 1, pose_y = 0, pose_theta = pi\<rparr>"
    by (simp add: PoseSE2_add_value)
  moreover have "PoseSE2_add ?p2 ?p1 = Inr \<lparr>pose_x = - 1, pose_y = 0, pose_theta = pi\<rparr>"
    by (simp add: PoseSE2_add_value)
  moreover have "\<lparr>pose_x = 1, pose_y = 0, pose_theta = pi\<rparr>
      \<noteq> \<lparr>pose_x = - 1, pose_y = 0, pose_theta = pi\<rparr>"
    by simp
  ultimately show ?thesis by blast
qed

subsection \<open>Inverse and relative pose\<close>

text \<open>
  Claim C2. The claim: for every pose \<open>(x, y, \<theta>)\<close>, \<^verbatim>\<open>inverse\<close> returns the pose
  \<open>(- x cos \<theta> - y sin \<theta>, x sin \<theta> - y cos \<theta>, - \<theta>)\<close>, whose matrix is the inverse of
  the matrix of the pose. The code does not deliver it: at the pose \<open>(1, 2, 0)\<close> the
  matrix inverse exists and is the matrix of \<open>(-1, -2, 0)\<close>, but \<^verbatim>\<open>inverse\<close> raises
  \<^verbatim>\<open>ValueError\<close>, because of the bracketed \<^verbatim>\<open>np.cos([self[2]])\<close>.
\<close>

theorem inverse_raises_ValueError:
  "PoseSE2_inverse \<lparr>pose_x = 1, pose_y = 2, pose_theta = 0\<rparr> = Inl ValueError
   \<and> matrix_inverse (to_matrix \<lparr>pose_x = 1, pose_y = 2, pose_theta = 0\<rparr>)
       = Inr (to_matrix \<lparr>pose_x = - 1, pose_y = - 2, pose_theta = 0\<rparr>)"
proof -
  have "PoseSE2_inverse \<lparr>pose_x = 1, pose_y = 2, pose_theta = 0\<rparr> = Inl ValueError"
    by (simp add: PoseSE2_inverse_def PoseSE2_new_def)
  moreover have "matrix_inverse (to_matrix \<lparr>pose_x = 1, pose_y = 2, pose_theta = 0\<rparr>)
      = Inr (to_matrix \<lparr>pose_x = - 1, pose_y = - 2, pose_theta = 0\<rparr>)"
    using matrix_inverse_to_matrix [of "\<lparr>pose_x = 1, pose_y = 2, pose_theta = 0\<rparr>"]
    by simp
  ultimately show ?thesis by simp
qed

text \<open>
  Claim C3. The claim: \<open>p1 \<ominus> p2\<close> is the inverse of \<open>p2\<close> composed with \<open>p1\<close>,
  and its matrix is the inverse of the matrix of \<open>p2\<close> times the matrix of \<open>p1\<close>.
  The code does build \<open>p1 \<ominus> p2\<close> from the inverse of \<open>p2\<close>, but that inverse
  raises: at \<open>p1 = (3, 4, 0)\<close> and \<open>p2 = (1, 2, 0)\<close> the matrix expression is the
  matrix of the pose \<open>(2, 2, 0)\<close>, and \<^verbatim>\<open>__sub__\<close> raises \<^verbatim>\<open>ValueError\<close>.
\<close>

theorem sub_raises_ValueError:
  "PoseSE2_sub \<lparr>pose_x = 3, pose_y = 4, pose_theta = 0\<rparr>
       \<lparr>pose_x = 1, pose_y = 2, pose_theta = 0\<rparr> = Inl ValueError
   \<and> (\<exists>N. matrix_inverse (to_matrix \<lparr>pose_x = 1, pose_y = 2, pose_theta = 0\<rparr>) = Inr N
          \<and> matmul N (to_matrix \<lparr>pose_x = 3, pose_y = 4, pose_theta = 0\<rparr>)
              = to_matrix \<lparr>pose_x = 2, pose_y = 2, pose_theta = 0\<rparr>)"
proof -
  have "PoseSE2_sub \<lparr>pose_x = 3, pose_y = 4, pose_theta = 0\<rparr>
      \<lparr>pose_x = 1, pose_y = 2, pose_theta = 0\<rparr> = Inl ValueError"
    by (simp add: PoseSE2_sub_def PoseSE2_inverse_def PoseSE2_new_def)
  moreover have "matrix_inverse (to_matrix \<lparr>pose_x = 1, pose_y = 2, pose_theta = 0\<rparr>)
      = Inr (to_matrix \<lparr>pose_x = - 1, pose_y = - 2, pose_theta = 0\<rparr>)"
    using matrix_inverse_to_matrix [of "\<lparr>pose_x = 1, pose_y = 2, pose_theta = 0\<rparr>"]
    by simp
  moreover have "matmul (to_matrix \<lparr>pose_x = - 1, pose_y = - 2, pose_theta = 0\<rparr>)
      (to_matrix \<lparr>pose_x = 3, pose_y = 4, pose_theta = 0\<rparr>)
      = to_matrix \<lparr>pose_x = 2, pose_y = 2, pose_theta = 0\<rparr>"
    by (simp add: to_matrix_def matmul_def)
  ultimately show ?thesis by simp
qed

text \<open>
  Claim C5. The claim: the inverse of \<open>p\<close> composed with \<open>p\<close> is the identity pose
  \<open>(0, 0, 0)\<close>, and so is \<open>p \<ominus> p\<close>. In the code neither is a pose: at
  \<open>p = (1, 2, 3)\<close>, \<^verbatim>\<open>p.inverse + p\<close> stops at \<^verbatim>\<open>p.inverse\<close> with
  \<^verbatim>\<open>ValueError\<close>, and so does \<^verbatim>\<open>p - p\<close>.
\<close>

theorem inverse_add_raises_ValueError:
  "(case PoseSE2_inverse \<lparr>pose_x = 1, pose_y = 2, pose_theta = 3\<rparr> of
      Inl e \<Rightarrow> Inl e
    | Inr q \<Rightarrow> PoseSE2_add q \<lparr>pose_x = 1, pose_y = 2, pose_theta = 3\<rparr>) = Inl ValueError
   \<and> PoseSE2_sub \<lparr>pose_x = 1, pose_y = 2, pose_theta = 3\<rparr>
        \<lparr>pose_x = 1, pose_y = 2, pose_theta = 3\<rparr> = Inl ValueError"
  by (simp add: PoseSE2_sub_def PoseSE2_inverse_def PoseSE2_new_def)

subsection \<open>Matrix round trip\<close>

text \<open>
  Claim C4. For every pose \<open>p\<close>, \<^verbatim>\<open>from_matrix(to_matrix(p))\<close> succeeds, keeps x and
  y, and returns the angle of \<open>p\<close> wrapped into \<open>(-\<pi>, \<pi>]\<close>: an angle in that range
  with the same cosine and sine, which differs from the angle of \<open>p\<close> by a multiple of
  \<open>2\<pi>\<close>. If the angle of \<open>p\<close> is in \<open>(-\<pi>, \<pi>]\<close> already, the round trip returns \<open>p\<close>.
\<close>

theorem from_matrix_to_matrix_round_trip:
  "\<exists>q. from_matrix (to_matrix p) = Inr q
       \<and> pose_x q = pose_x p \<and> pose_y q = pose_y p
       \<and> - pi < pose_theta q \<and> pose_theta q \<le> pi
       \<and> cos (pose_theta q) = cos (pose_theta p)
       \<and> sin (pose_theta q) = sin (pose_theta p)
       \<and> (\<exists>n::int. pose_theta q = pose_theta p + 2 * pi * real_of_int n)
       \<and> (- pi < pose_theta p \<and> pose_theta p \<le> pi \<longrightarrow> q = p)"
proof -
  let ?a = "atan2 (sin (pose_theta p)) (cos (pose_theta p))"
  let ?q = "\<lparr>pose_x = pose_x p, pose_y = pose_y p, pose_theta = ?a\<rparr>"
  have cs: "cos ?a = cos (pose_theta p)" "sin ?a = sin (pose_theta p)"
    using atan2_sin_cos [of "pose_theta p"] by simp_all
  have rng: "- pi < ?a" "?a \<le> pi"
    using atan2_range [of "sin (pose_theta p)" "cos (pose_theta p)"] by simp_all
  have per: "\<exists>n::int. ?a = pose_theta p + 2 * pi * real_of_int n"
    using cs sin_cos_eq_iff [of ?a "pose_theta p"] by simp
  have same: "- pi < pose_theta p \<and> pose_theta p \<le> pi \<longrightarrow> ?q = p"
  proof
    assume "- pi < pose_theta p \<and> pose_theta p \<le> pi"
    then have "?a = pose_theta p"
      using principal_angle_unique [of ?a "pose_theta p"] cs rng by simp
    then show "?q = p" by simp
  qed
  show ?thesis
    using from_matrix_to_matrix [of p] cs rng per same by simp
qed

theorem from_matrix_to_matrix_round_trip_witness:
  "(- pi < (0::real) \<and> (0::real) \<le> pi)
   \<and> from_matrix (to_matrix \<lparr>pose_x = 1, pose_y = 2, pose_theta = 0\<rparr>)
       = Inr \<lparr>pose_x = 1, pose_y = 2, pose_theta = 0\<rparr>"
  using from_matrix_to_matrix_round_trip [of "\<lparr>pose_x = 1, pose_y = 2, pose_theta = 0\<rparr>"]
  by auto

text \<open>
  Claim C10. \<^verbatim>\<open>from_matrix\<close> depends on four entries only and validates nothing: two
  three-by-three matrices that agree on the entries \<open>[0][2]\<close>, \<open>[1][2]\<close>, \<open>[1][0]\<close>
  and \<open>[0][0]\<close> give the same result, and that result is never an error, whatever the
  other entries are: the pose is read off the four entries with no check that the
  matrix is a rigid transform.
\<close>

theorem from_matrix_four_entries:
  assumes "map length M = [3, 3, 3]" and "map length N = [3, 3, 3]"
    and "M ! 0 ! 2 = N ! 0 ! 2" and "M ! 1 ! 2 = N ! 1 ! 2"
    and "M ! 1 ! 0 = N ! 1 ! 0" and "M ! 0 ! 0 = N ! 0 ! 0"
  shows "from_matrix M = from_matrix N
    \<and> from_matrix M = Inr \<lparr>pose_x = M ! 0 ! 2, pose_y = M ! 1 ! 2,
                           pose_theta = atan2 (M ! 1 ! 0) (M ! 0 ! 0)\<rparr>"
  using matrix_3x3_lengths [OF assms(1)] matrix_3x3_lengths [OF assms(2)] assms(3-6)
  by (simp add: from_matrix_def PoseSE2_new_scalars)

theorem from_matrix_four_entries_witness:
  "map length [[2, 5, 1], [0, 7, 2], [9, 9, 9 :: real]] = [3, 3, 3]
   \<and> map length [[2, 0, 1], [0, 2, 2], [0, 0, 1 :: real]] = [3, 3, 3]
   \<and> from_matrix [[2, 5, 1], [0, 7, 2], [9, 9, 9]]
       = from_matrix [[2, 0, 1], [0, 2, 2], [0, 0, 1]]
   \<and> from_matrix [[2, 5, 1], [0, 7, 2], [9, 9, 9]]
       = Inr \<lparr>pose_x = 1, pose_y = 2, pose_theta = 0\<rparr>"
  using from_matrix_four_entries
    [of "[[2, 5, 1], [0, 7, 2], [9, 9, 9]]" "[[2, 0, 1], [0, 2, 2], [0, 0, 1]]"]
  by (simp add: atan2_def from_matrix_def PoseSE2_new_scalars)

end
